theory Spec2Isabelle
  imports Main "HOL-Library.Word"
begin

section \<open>Python values and outcomes\<close>

text \<open>
  Python text is modelled as \<open>string\<close>, one \<open>char\<close> per code point (code points
  below 256). A raised \<open>Exception\<close> is a value carrying its message (what \<open>str(e)\<close>
  gives). A computation that may raise has an outcome of type \<open>exn + 'a\<close>, and \<open>'a run\<close>
  pairs the outcome with the list of calls made to the libraries (PIL, the processor, the
  model) and of lines printed, in the order they happened.
\<close>

datatype exn = Exception string

fun str_exn :: "exn \<Rightarrow> string" where
  "str_exn (Exception msg) = msg"

record pil_image =
  mode :: string
  pixels :: "nat list"

datatype call =
    Call_open string
  | Call_convert pil_image string
  | Call_processor pil_image
  | Call_generate "nat list" int int
  | Call_decode "nat list"
  | Call_print string

type_synonym 'a run = "call list \<times> (exn + 'a)"

definition ret :: "'a \<Rightarrow> 'a run" where
  "ret v = ([], Inr v)"

definition raise :: "exn \<Rightarrow> 'a run" where
  "raise e = ([], Inl e)"

text \<open>A library call: the call is recorded, its outcome is the library's.\<close>

definition do_call :: "call \<Rightarrow> (exn + 'a) \<Rightarrow> 'a run" where
  "do_call c r = ([c], r)"

text \<open>Sequencing of statements: an exception skips the rest.\<close>

definition then_do :: "'a run \<Rightarrow> ('a \<Rightarrow> 'b run) \<Rightarrow> 'b run" where
  "then_do m f =
     (case m of
        (tr, Inl e) \<Rightarrow> (tr, Inl e)
      | (tr, Inr v) \<Rightarrow> (case f v of (tr', r) \<Rightarrow> (tr @ tr', r)))"

text \<open>\<^verbatim>\<open>try: m except Exception as e: h(e)\<close>\<close>

definition try_except :: "'a run \<Rightarrow> (exn \<Rightarrow> 'a run) \<Rightarrow> 'a run" where
  "try_except m h =
     (case m of
        (tr, Inl e) \<Rightarrow> (case h e of (tr', r) \<Rightarrow> (tr @ tr', r))
      | (tr, Inr v) \<Rightarrow> (tr, Inr v))"

text \<open>
  \<^verbatim>\<open>str.strip()\<close> removes leading and trailing whitespace; below 256 the code points
  Python counts as whitespace are 9 to 13, 28 to 32, 133 and 160.
\<close>

definition isspace :: "char \<Rightarrow> bool" where
  "isspace c = ((of_char c :: nat) \<in> set [9, 10, 11, 12, 13, 28, 29, 30, 31, 32, 133, 160])"

text \<open>\<^verbatim>\<open>str.strip(chars)\<close>, for the characters that satisfy \<open>P\<close>.\<close>

definition strip_by :: "(char \<Rightarrow> bool) \<Rightarrow> string \<Rightarrow> string" where
  "strip_by P s = rev (dropWhile P (rev (dropWhile P s)))"

definition strip :: "string \<Rightarrow> string" where
  "strip s = strip_by isspace s"

text \<open>The newline and the apostrophe, for the messages that contain them.\<close>

definition nl :: string where
  "nl = [CHR 0x0A]"

definition apos :: string where
  "apos = [CHR 0x27]"

text \<open>Truth value of an \<^verbatim>\<open>Optional[str]\<close>: \<^verbatim>\<open>None\<close> and \<^verbatim>\<open>""\<close> are false.\<close>

fun truthy :: "string option \<Rightarrow> bool" where
  "truthy None = False"
| "truthy (Some s) = (s \<noteq> [])"

section \<open>utils/captioner.py: ImageCaptioner\<close>

text \<open>
  The loaded \<^verbatim>\<open>ImageCaptioner\<close>: PIL's \<^verbatim>\<open>Image.open\<close> and \<^verbatim>\<open>Image.convert\<close>, the
  processor (with the move of its tensors to the device), the model's \<^verbatim>\<open>generate\<close>
  and the processor's \<^verbatim>\<open>decode\<close>. Each may raise.
\<close>

record ImageCaptioner =
  Image_open :: "string \<Rightarrow> exn + pil_image"
  Image_convert :: "pil_image \<Rightarrow> string \<Rightarrow> exn + pil_image"
  processor :: "pil_image \<Rightarrow> exn + nat list"
  model_generate :: "nat list \<Rightarrow> int \<Rightarrow> int \<Rightarrow> exn + nat list list"
  processor_decode :: "nat list \<Rightarrow> exn + string"

text \<open>\<^verbatim>\<open>output_ids[0]\<close>\<close>

definition index0 :: "'a list \<Rightarrow> 'a run" where
  "index0 xs = (case xs of [] \<Rightarrow> raise (Exception ''index 0 is out of bounds'') | x # _ \<Rightarrow> ret x)"

text \<open>The body of the \<^verbatim>\<open>try\<close> block of \<^verbatim>\<open>generate_caption\<close>.\<close>

definition generate_caption_try :: "ImageCaptioner \<Rightarrow> string \<Rightarrow> int \<Rightarrow> int \<Rightarrow> string run" where
  "generate_caption_try self image_path max_length num_beams =
     then_do (do_call (Call_open image_path) (Image_open self image_path)) (\<lambda>image.
     then_do (if mode image \<noteq> ''RGB''
              then do_call (Call_convert image ''RGB'') (Image_convert self image ''RGB'')
              else ret image) (\<lambda>image.
     then_do (do_call (Call_processor image) (processor self image)) (\<lambda>inputs.
     then_do (do_call (Call_generate inputs max_length num_beams)
                (model_generate self inputs max_length num_beams)) (\<lambda>output_ids.
     then_do (index0 output_ids) (\<lambda>ids.
     then_do (do_call (Call_decode ids) (processor_decode self ids)) (\<lambda>caption.
     ret (strip caption)))))))"

definition generate_caption :: "ImageCaptioner \<Rightarrow> string \<Rightarrow> int \<Rightarrow> int \<Rightarrow> string option run" where
  "generate_caption self image_path max_length num_beams =
     try_except
       (then_do (generate_caption_try self image_path max_length num_beams) (\<lambda>caption.
        ret (Some caption)))
       (\<lambda>e. then_do (do_call (Call_print (''Error generating caption: '' @ str_exn e)) (Inr ()))
          (\<lambda>_. ret None))"




section \<open>main.py: AccessibleImageCaptionerApp\<close>

text \<open>
  What the application calls outside itself: PIL for the preview, \<^verbatim>\<open>pathlib\<close>,
  \<^verbatim>\<open>os.path.isfile\<close> and the file it exports to. \<open>open_w\<close> is
  \<^verbatim>\<open>open(file_path, 'w', encoding='utf-8')\<close>, which may raise; \<open>write_utf8\<close> gives the
  bytes that the text layer of a file opened with that encoding emits for a written string,
  or the exception it raises.
\<close>

record platform =
  PIL_open :: "string \<Rightarrow> exn + pil_image"
  PIL_thumbnail :: "pil_image \<Rightarrow> nat \<times> nat \<Rightarrow> exn + pil_image"
  PhotoImage :: "pil_image \<Rightarrow> exn + pil_image"
  Path_name :: "string \<Rightarrow> string"
  Path_stem :: "string \<Rightarrow> string"
  isfile :: "string \<Rightarrow> bool"
  open_w :: "string \<Rightarrow> exn option"
  write_utf8 :: "string \<Rightarrow> exn + 8 word list"
  drag_drop_available :: bool

text \<open>
  The speech engine: \<^verbatim>\<open>setProperty(name, value)\<close> for the two properties the
  application sets, and \<^verbatim>\<open>say(text)\<close> followed by \<^verbatim>\<open>runAndWait()\<close>. Each gives the
  exception it raises, if any.
\<close>

record engine =
  setProperty :: "string \<Rightarrow> exn option"
  say_runAndWait :: "string option \<Rightarrow> exn option"

datatype btn_state = NORMAL | DISABLED

text \<open>Dialogs put on the screen, in order: title and message, or the file dialog.\<close>

datatype dialog =
    Showwarning string string
  | Showerror string string
  | Showinfo string string
  | Askopenfilename
  | Asksaveasfilename string

text \<open>Worker threads started by the application.\<close>

datatype thread = Thread_load | Thread_generate | Thread_speak

text \<open>What a worker hands back to the user-interface thread through \<^verbatim>\<open>root.after\<close>.\<close>

datatype callback =
    On_model_loaded
  | On_model_error string
  | On_caption_generated "string option"
  | On_caption_error string
  | Show_tts_error string

text \<open>
  The texts of the status line. Several start with a symbol outside ASCII in the source,
  so each text is a constructor here:
  \<open>Status_loading\<close> is "Loading model, please wait...",
  \<open>Status_model_loaded\<close> is "(symbol) Model loaded successfully! Select an image to begin.",
  \<open>Status_model_failed\<close> is "(symbol) Failed to load model. Please restart the application.",
  \<open>Status_image_loaded f\<close> is "Image loaded: f",
  \<open>Status_generating\<close> is "Generating caption...",
  \<open>Status_caption_generated\<close> is "(symbol) Caption generated successfully!",
  \<open>Status_caption_failed\<close> is "(symbol) Caption generation failed",
  \<open>Status_reading\<close> is "(symbol) Reading caption aloud...",
  \<open>Status_exported f\<close> is "(symbol) Caption exported to f",
  \<open>Status_high_contrast\<close> is "High contrast mode enabled",
  \<open>Status_normal_mode\<close> is "Normal mode enabled".
\<close>

datatype status =
    Status_loading
  | Status_model_loaded
  | Status_model_failed
  | Status_image_loaded string
  | Status_generating
  | Status_caption_generated
  | Status_caption_failed
  | Status_reading
  | Status_exported string
  | Status_high_contrast
  | Status_normal_mode

datatype label = Label_text string | Label_image pil_image

text \<open>
  The application object: its attributes, the widgets it configures, and what it has
  done to the outside (dialogs shown, threads started, files written). Configuring a
  widget does not raise.
\<close>

record app =
  current_image_path :: "string option"
  current_caption :: "string option"
  captioner :: "ImageCaptioner option"
  tts_engine :: "engine option"
  high_contrast_mode :: bool
  status_label :: status
  image_label :: label
  caption_text :: string
  generate_btn :: btn_state
  read_btn :: btn_state
  export_btn :: btn_state
  progress :: bool
  dialogs :: "dialog list"
  threads :: "thread list"
  files :: "string \<Rightarrow> 8 word list option"

definition messagebox :: "dialog \<Rightarrow> app \<Rightarrow> app" where
  "messagebox d s = s\<lparr>dialogs := dialogs s @ [d]\<rparr>"

definition filedialog :: "dialog \<Rightarrow> app \<Rightarrow> app" where
  "filedialog d s = s\<lparr>dialogs := dialogs s @ [d]\<rparr>"

definition start_thread :: "thread \<Rightarrow> app \<Rightarrow> app" where
  "start_thread t s = s\<lparr>threads := threads s @ [t]\<rparr>"

text \<open>
  \<^verbatim>\<open>_init_tts\<close>: \<open>made\<close> is what \<^verbatim>\<open>pyttsx3.init()\<close> did. The engine is stored as
  soon as it is made; an exception, of the making or of setting a property, is reported
  in a dialog and goes no further. The result is the engine stored and the dialogs shown.
\<close>

definition init_tts :: "exn + engine \<Rightarrow> engine option \<times> dialog list" where
  "init_tts made =
     (let failed = (\<lambda>e. [Showerror ''TTS Error''
                           (''Failed to initialize text-to-speech: '' @ str_exn e)])
      in case made of
           Inl e \<Rightarrow> (None, failed e)
         | Inr eng \<Rightarrow>
             (Some eng,
              case setProperty eng ''rate'' of
                Some e \<Rightarrow> failed e
              | None \<Rightarrow>
                  (case setProperty eng ''volume'' of
                     Some e \<Rightarrow> failed e
                   | None \<Rightarrow> [])))"

text \<open>
  \<^verbatim>\<open>__init__\<close>: the attributes, the speech engine, the widgets as \<^verbatim>\<open>_create_widgets\<close>
  makes them, and the thread that loads the model.
\<close>

definition init :: "platform \<Rightarrow> exn + engine \<Rightarrow> app" where
  "init env made =
     start_thread Thread_load
       \<lparr>current_image_path = None,
        current_caption = None,
        captioner = None,
        tts_engine = fst (init_tts made),
        high_contrast_mode = False,
        status_label = Status_loading,
        image_label = Label_text (''No image selected'' @ nl @ nl @
          (if drag_drop_available env
           then ''Drag & drop an image here or click '' @ apos @ ''Select Image'' @ apos
           else ''Click '' @ apos @ ''Select Image'' @ apos @ '' to begin'')),
        caption_text = [],
        generate_btn = DISABLED,
        read_btn = DISABLED,
        export_btn = DISABLED,
        progress = False,
        dialogs = snd (init_tts made),
        threads = [],
        files = Map.empty\<rparr>"

text \<open>
  The worker of \<^verbatim>\<open>_load_model_async\<close>: \<open>loaded\<close> is what \<^verbatim>\<open>ImageCaptioner()\<close>
  did. The worker stores the captioner itself and posts the callback.
\<close>

definition load_worker :: "exn + ImageCaptioner \<Rightarrow> app \<Rightarrow> app \<times> callback" where
  "load_worker loaded s =
     (case loaded of
        Inr c \<Rightarrow> (s\<lparr>captioner := Some c\<rparr>, On_model_loaded)
      | Inl e \<Rightarrow> (s, On_model_error (str_exn e)))"

definition on_model_loaded :: "app \<Rightarrow> app" where
  "on_model_loaded s =
     messagebox (Showinfo ''Ready'' ''Image captioning model loaded successfully!'')
       (s\<lparr>status_label := Status_model_loaded\<rparr>)"

definition on_model_error :: "string \<Rightarrow> app \<Rightarrow> app" where
  "on_model_error error_msg s =
     messagebox (Showerror ''Model Error'' (''Failed to load captioning model:'' @ nl @ error_msg))
       (s\<lparr>status_label := Status_model_failed\<rparr>)"

text \<open>
  \<^verbatim>\<open>_load_image\<close>. The path is stored first; opening the file, making the thumbnail
  and making the \<^verbatim>\<open>PhotoImage\<close> may raise, and the handler only shows a dialog.
\<close>

definition load_image_except :: "exn \<Rightarrow> app \<Rightarrow> app" where
  "load_image_except e s =
     messagebox (Showerror ''Error'' (''Failed to load image:'' @ nl @ str_exn e)) s"

definition load_image :: "platform \<Rightarrow> string \<Rightarrow> app \<Rightarrow> app" where
  "load_image env image_path s =
     (let s = s\<lparr>current_image_path := Some image_path\<rparr> in
      case PIL_open env image_path of
        Inl e \<Rightarrow> load_image_except e s
      | Inr img \<Rightarrow>
     (case PIL_thumbnail env img (600, 400) of
        Inl e \<Rightarrow> load_image_except e s
      | Inr img \<Rightarrow>
     (case PhotoImage env img of
        Inl e \<Rightarrow> load_image_except e s
      | Inr photo \<Rightarrow>
        (let s = s\<lparr>image_label := Label_image photo\<rparr>;
             s = (if captioner s \<noteq> None then s\<lparr>generate_btn := NORMAL\<rparr> else s);
             filename = Path_name env image_path;
             s = s\<lparr>status_label := Status_image_loaded filename\<rparr>;
             s = s\<lparr>caption_text := []\<rparr>;
             s = s\<lparr>current_caption := None\<rparr>;
             s = s\<lparr>read_btn := DISABLED\<rparr>;
             s = s\<lparr>export_btn := DISABLED\<rparr>
         in s))))"

text \<open>\<^verbatim>\<open>select_image\<close>: \<open>file_path\<close> is what the file dialog returned, empty when cancelled.\<close>

definition select_image :: "platform \<Rightarrow> string \<Rightarrow> app \<Rightarrow> app" where
  "select_image env file_path s =
     (let s = filedialog Askopenfilename s in
      if file_path \<noteq> [] then load_image env file_path s else s)"

text \<open>\<^verbatim>\<open>_on_drop\<close>: \<open>data\<close> is \<^verbatim>\<open>event.data\<close>.\<close>

definition on_drop :: "platform \<Rightarrow> string \<Rightarrow> app \<Rightarrow> app" where
  "on_drop env data s =
     (let file_path = strip_by (\<lambda>c. c \<in> set ''{}'') data in
      if isfile env file_path then load_image env file_path s else s)"

definition on_caption_error :: "string \<Rightarrow> app \<Rightarrow> app" where
  "on_caption_error error_msg s =
     (let s = s\<lparr>progress := False\<rparr>;
          s = s\<lparr>generate_btn := NORMAL\<rparr>;
          s = s\<lparr>status_label := Status_caption_failed\<rparr>
      in messagebox (Showerror ''Error'' (''Caption generation failed:'' @ nl @ error_msg)) s)"

definition read_aloud :: "app \<Rightarrow> app" where
  "read_aloud s =
     (if \<not> truthy (current_caption s)
      then messagebox (Showwarning ''No Caption'' ''Please generate a caption first.'') s
      else if tts_engine s = None
      then messagebox (Showerror ''TTS Error'' ''Text-to-speech engine is not available.'') s
      else (start_thread Thread_speak s)\<lparr>status_label := Status_reading\<rparr>)"

text \<open>
  The worker \<^verbatim>\<open>speak\<close> started by \<^verbatim>\<open>read_aloud\<close>. It reads the caption when it
  runs. The result is the text handed to the engine, if the engine was reached, and the
  callbacks posted: one when the engine raises, and one when there is no engine and the
  attribute access raises.
\<close>

definition speak_worker :: "app \<Rightarrow> string option option \<times> callback list" where
  "speak_worker s =
     (case tts_engine s of
        None \<Rightarrow>
          (None, [Show_tts_error (apos @ ''NoneType'' @ apos @ '' object has no attribute '' @
                                  apos @ ''say'' @ apos)])
      | Some eng \<Rightarrow>
          (Some (current_caption s),
           case say_runAndWait eng (current_caption s) of
             None \<Rightarrow> []
           | Some e \<Rightarrow> [Show_tts_error (str_exn e)]))"

definition show_tts_error :: "string \<Rightarrow> app \<Rightarrow> app" where
  "show_tts_error msg s =
     messagebox (Showerror ''TTS Error'' (''Failed to read aloud:'' @ nl @ msg)) s"

text \<open>\<^verbatim>\<open>AccessibleImageCaptionerApp.generate_caption\<close>, the command of the window.\<close>

definition app_generate_caption :: "app \<Rightarrow> app" where
  "app_generate_caption s =
     (if \<not> truthy (current_image_path s)
      then messagebox (Showwarning ''No Image'' ''Please select an image first.'') s
      else if captioner s = None
      then messagebox (Showwarning ''Model Not Ready'' ''Please wait for the model to load.'') s
      else (let s = s\<lparr>generate_btn := DISABLED\<rparr>;
                s = s\<lparr>progress := True\<rparr>;
                s = s\<lparr>status_label := Status_generating\<rparr>
            in start_thread Thread_generate s))"

text \<open>
  The worker \<^verbatim>\<open>generate\<close> started by the command. It reads the captioner and the
  path when it runs, with the defaults \<^verbatim>\<open>max_length=50\<close> and \<^verbatim>\<open>num_beams=4\<close>.
  Without a captioner the attribute access raises; without a path \<^verbatim>\<open>Image.open(None)\<close>
  raises inside the captioner, which returns \<^verbatim>\<open>None\<close>.
\<close>

definition generate_worker :: "app \<Rightarrow> callback" where
  "generate_worker s =
     (case captioner s of
        None \<Rightarrow>
          On_caption_error (apos @ ''NoneType'' @ apos @ '' object has no attribute '' @
                            apos @ ''generate_caption'' @ apos)
      | Some c \<Rightarrow>
          (case current_image_path s of
             None \<Rightarrow> On_caption_generated None
           | Some image_path \<Rightarrow>
               (case snd (generate_caption c image_path 50 4) of
                  Inr caption \<Rightarrow> On_caption_generated caption
                | Inl e \<Rightarrow> On_caption_error (str_exn e))))"

definition on_caption_generated :: "string option \<Rightarrow> app \<Rightarrow> app" where
  "on_caption_generated caption s =
     (let s = s\<lparr>progress := False\<rparr>;
          s = s\<lparr>generate_btn := NORMAL\<rparr>
      in if truthy caption
         then (let s = s\<lparr>current_caption := caption\<rparr>;
                   s = s\<lparr>caption_text := the caption\<rparr>;
                   s = s\<lparr>read_btn := NORMAL\<rparr>;
                   s = s\<lparr>export_btn := NORMAL\<rparr>;
                   s = s\<lparr>status_label := Status_caption_generated\<rparr>
               in read_aloud s)
         else on_caption_error ''Failed to generate caption'' s)"

text \<open>
  \<^verbatim>\<open>export_caption\<close>: \<open>answer\<close> is the save dialog, from the suggested name to the
  chosen path (empty when cancelled). Opening with mode \<^verbatim>\<open>'w'\<close> empties the file; a
  write that raises leaves it empty.
\<close>

definition export_caption :: "platform \<Rightarrow> (string \<Rightarrow> string) \<Rightarrow> app \<Rightarrow> app" where
  "export_caption env answer s =
     (if \<not> truthy (current_caption s)
      then messagebox (Showwarning ''No Caption'' ''Please generate a caption first.'') s
      else
       (let suggested_name =
              (if truthy (current_image_path s)
               then Path_stem env (the (current_image_path s)) @ ''_caption.txt''
               else ''caption.txt'');
            s = filedialog (Asksaveasfilename suggested_name) s;
            file_path = answer suggested_name;
            failed = (\<lambda>e. Showerror ''Export Error''
                            (''Failed to export caption:'' @ nl @ str_exn e))
        in if file_path \<noteq> []
           then (case open_w env file_path of
                   Some e \<Rightarrow> messagebox (failed e) s
                 | None \<Rightarrow>
                     (case write_utf8 env (the (current_caption s)) of
                        Inl e \<Rightarrow> messagebox (failed e) (s\<lparr>files := (files s)(file_path \<mapsto> [])\<rparr>)
                      | Inr bytes \<Rightarrow>
                          (let s = s\<lparr>files := (files s)(file_path \<mapsto> bytes)\<rparr>;
                               s = s\<lparr>status_label := Status_exported (Path_name env file_path)\<rparr>
                           in messagebox (Showinfo ''Success''
                                (''Caption exported successfully to:'' @ nl @ file_path)) s)))
           else s))"

definition toggle_high_contrast :: "app \<Rightarrow> app" where
  "toggle_high_contrast s =
     (let s = s\<lparr>high_contrast_mode := \<not> high_contrast_mode s\<rparr>
      in if high_contrast_mode s
         then s\<lparr>status_label := Status_high_contrast\<rparr>
         else s\<lparr>status_label := Status_normal_mode\<rparr>)"

text \<open>The callbacks, as the user-interface thread runs them.\<close>

fun run_callback :: "callback \<Rightarrow> app \<Rightarrow> app" where
  "run_callback On_model_loaded s = on_model_loaded s"
| "run_callback (On_model_error msg) s = on_model_error msg s"
| "run_callback (On_caption_generated caption) s = on_caption_generated caption s"
| "run_callback (On_caption_error msg) s = on_caption_error msg s"
| "run_callback (Show_tts_error msg) s = show_tts_error msg s"

text \<open>
  The event loop. The user-interface thread handles one event at a time: a command of the
  user, the captioner arriving from the loading worker, or a callback posted by a worker.
  \<open>Callback\<close> admits any callback at any time, which covers every order in which the
  workers can finish.
\<close>

datatype event =
    Select_image string
  | Drop string
  | Generate_caption
  | Read_aloud
  | Export_caption "string \<Rightarrow> string"
  | Toggle_high_contrast
  | Loaded "exn + ImageCaptioner"
  | Callback callback

fun step :: "platform \<Rightarrow> event \<Rightarrow> app \<Rightarrow> app" where
  "step env (Select_image file_path) s = select_image env file_path s"
| "step env (Drop data) s = on_drop env data s"
| "step env Generate_caption s = app_generate_caption s"
| "step env Read_aloud s = read_aloud s"
| "step env (Export_caption answer) s = export_caption env answer s"
| "step env Toggle_high_contrast s = toggle_high_contrast s"
| "step env (Loaded loaded) s = run_callback (snd (load_worker loaded s)) (fst (load_worker loaded s))"
| "step env (Callback cb) s = run_callback cb s"

fun run_events :: "platform \<Rightarrow> event list \<Rightarrow> app \<Rightarrow> app" where
  "run_events env [] s = s"
| "run_events env (ev # evs) s = run_events env evs (step env ev s)"

text \<open>
  The actions that need a caption are offered only while there is one: reading aloud and
  exporting are enabled only if the caption is present and not empty.
\<close>

definition caption_actions_guarded :: "app \<Rightarrow> bool" where
  "caption_actions_guarded s =
     ((read_btn s = NORMAL \<or> export_btn s = NORMAL) \<longrightarrow> truthy (current_caption s))"

section \<open>Sample collaborators and states\<close>

text \<open>
  Concrete libraries and application states on which the theorems below are run: a
  captioner that knows one colour picture and one grey picture and fails to decode any
  other path, a captioner whose model decodes to blanks only, a platform whose files can
  all be written, and an engine that speaks.
\<close>

definition rgb_image :: pil_image where
  "rgb_image = \<lparr>mode = ''RGB'', pixels = [255, 0, 0]\<rparr>"

definition gray_image :: pil_image where
  "gray_image = \<lparr>mode = ''L'', pixels = [128]\<rparr>"

definition demo_captioner :: ImageCaptioner where
  "demo_captioner =
     \<lparr>Image_open = (\<lambda>p. if p = ''photo.jpg'' then Inr rgb_image
                        else if p = ''gray.jpg'' then Inr gray_image
                        else Inl (Exception ''cannot identify image file'')),
      Image_convert = (\<lambda>im m. Inr (im\<lparr>mode := m\<rparr>)),
      processor = (\<lambda>im. Inr (pixels im)),
      model_generate = (\<lambda>inputs max_length num_beams. Inr [[1, 2, 3]]),
      processor_decode = (\<lambda>ids. Inr ''a red square '')\<rparr>"


definition demo_platform :: platform where
  "demo_platform =
     \<lparr>PIL_open = (\<lambda>p. if p = ''photo.jpg'' then Inr rgb_image
                      else Inl (Exception ''cannot identify image file'')),
      PIL_thumbnail = (\<lambda>im size. Inr im),
      PhotoImage = (\<lambda>im. Inr im),
      Path_name = (\<lambda>p. p),
      Path_stem = (\<lambda>p. takeWhile (\<lambda>c. c \<noteq> CHR ''.'') p),
      isfile = (\<lambda>p. p = ''photo.jpg''),
      open_w = (\<lambda>p. None),
      write_utf8 = (\<lambda>text. Inr (map of_char text)),
      drag_drop_available = False\<rparr>"

definition demo_engine :: engine where
  "demo_engine = \<lparr>setProperty = (\<lambda>name. None), say_runAndWait = (\<lambda>text. None)\<rparr>"

text \<open>The application right after start, with and without a speech engine.\<close>

definition started_app :: app where
  "started_app = init demo_platform (Inr demo_engine)"

definition silent_app :: app where
  "silent_app = init demo_platform (Inl (Exception ''no speech driver''))"

text \<open>The model is loaded and a caption of \<^verbatim>\<open>photo.jpg\<close> is on the screen.\<close>

definition captioned_app :: app where
  "captioned_app =
     started_app
       \<lparr>current_image_path := Some ''photo.jpg'',
        current_caption := Some ''a red square'',
        captioner := Some demo_captioner,
        status_label := Status_reading,
        image_label := Label_image rgb_image,
        caption_text := ''a red square'',
        generate_btn := NORMAL,
        read_btn := NORMAL,
        export_btn := NORMAL\<rparr>"

text \<open>An image is loaded but the model is not.\<close>

definition waiting_app :: app where
  "waiting_app =
     started_app
       \<lparr>current_image_path := Some ''photo.jpg'',
        image_label := Label_image rgb_image,
        status_label := Status_image_loaded ''photo.jpg''\<rparr>"

text \<open>
  The model is loaded, \<^verbatim>\<open>photo.jpg\<close> is selected and its caption has been requested:
  the state in which the caption arrives, with and without a speech engine.
\<close>

definition captioning_app :: app where
  "captioning_app =
     run_events demo_platform
       [Loaded (Inr demo_captioner), Select_image ''photo.jpg'', Generate_caption]
       started_app"

definition silent_captioning_app :: app where
  "silent_captioning_app =
     run_events demo_platform
       [Loaded (Inr demo_captioner), Select_image ''photo.jpg'', Generate_caption]
       silent_app"


section \<open>Properties of the captioner\<close>

lemmas run_defs = then_do_def try_except_def do_call_def ret_def raise_def index0_def


text \<open>The handler of \<^verbatim>\<open>generate_caption\<close> turns every exception of the body into \<^verbatim>\<open>None\<close>.\<close>

lemma generate_caption_catches:
  "generate_caption self p ml nb =
     (case generate_caption_try self p ml nb of
        (tr, Inl e) \<Rightarrow> (tr @ [Call_print (''Error generating caption: '' @ str_exn e)], Inr None)
      | (tr, Inr c) \<Rightarrow> (tr, Inr (Some c)))"
  unfolding generate_caption_def
  by (cases "generate_caption_try self p ml nb") (auto simp: run_defs split: sum.splits)






subsection \<open>C1: the batch form\<close>




subsection \<open>The calls made by \<^verbatim>\<open>generate_caption\<close>\<close>








lemma demo_gray_trace:
  "generate_caption demo_captioner ''gray.jpg'' 50 4 =
     ([Call_open ''gray.jpg'', Call_convert gray_image ''RGB'',
       Call_processor (gray_image\<lparr>mode := ''RGB''\<rparr>), Call_generate [128] 50 4,
       Call_decode [1, 2, 3]], Inr (Some ''a red square''))"
  by (simp add: generate_caption_catches generate_caption_try_def demo_captioner_def run_defs
        gray_image_def strip_def strip_by_def isspace_def)

subsection \<open>C7: conversion to RGB before inference\<close>



subsection \<open>C9: no exception leaves \<^verbatim>\<open>generate_caption\<close>\<close>



section \<open>Properties of the application\<close>

lemmas app_defs = messagebox_def filedialog_def start_thread_def Let_def


text \<open>The load fails when opening, the thumbnail or the \<^verbatim>\<open>PhotoImage\<close> raises.\<close>

lemma load_image_failure:
  assumes "PIL_open env p = Inl e \<or>
     (\<exists>img. PIL_open env p = Inr img \<and>
        (PIL_thumbnail env img (600, 400) = Inl e \<or>
         (\<exists>thumb. PIL_thumbnail env img (600, 400) = Inr thumb \<and> PhotoImage env thumb = Inl e)))"
  shows "load_image env p s =
     s\<lparr>current_image_path := Some p,
       dialogs := dialogs s @ [Showerror ''Error'' (''Failed to load image:'' @ nl @ str_exn e)]\<rparr>"
  using assms by (auto simp: load_image_def load_image_except_def app_defs)

lemma load_image_cases:
  "(\<exists>photo. load_image env p s =
     s\<lparr>current_image_path := Some p,
       image_label := Label_image photo,
       generate_btn := (if captioner s \<noteq> None then NORMAL else generate_btn s),
       status_label := Status_image_loaded (Path_name env p),
       caption_text := [],
       current_caption := None,
       read_btn := DISABLED,
       export_btn := DISABLED\<rparr>) \<or>
   (\<exists>e. load_image env p s =
     s\<lparr>current_image_path := Some p,
       dialogs := dialogs s @ [Showerror ''Error'' (''Failed to load image:'' @ nl @ str_exn e)]\<rparr>)"
  by (auto simp: load_image_def load_image_except_def app_defs split: sum.splits)

subsection \<open>C2: loading an image clears the caption\<close>



subsection \<open>C10: a failed load changes the path only\<close>

text \<open>
  C10. When the body of \<^verbatim>\<open>_load_image\<close> raises (opening the file, the thumbnail or the
  \<^verbatim>\<open>PhotoImage\<close>), the current image path is already the new path, while the caption
  and the states of the read and export buttons are what they were; the only other
  change is the error dialog.
\<close>

theorem load_image_failure_keeps_caption:
  "PIL_open env p = Inl e \<or>
     (\<exists>img. PIL_open env p = Inr img \<and>
        (PIL_thumbnail env img (600, 400) = Inl e \<or>
         (\<exists>thumb. PIL_thumbnail env img (600, 400) = Inr thumb \<and> PhotoImage env thumb = Inl e)))
   \<Longrightarrow>
   current_image_path (load_image env p s) = Some p \<and>
   current_caption (load_image env p s) = current_caption s \<and>
   read_btn (load_image env p s) = read_btn s \<and>
   export_btn (load_image env p s) = export_btn s \<and>
   load_image env p s =
     s\<lparr>current_image_path := Some p,
       dialogs := dialogs s @ [Showerror ''Error'' (''Failed to load image:'' @ nl @ str_exn e)]\<rparr>"
proof -
  assume a: "PIL_open env p = Inl e \<or>
     (\<exists>img. PIL_open env p = Inr img \<and>
        (PIL_thumbnail env img (600, 400) = Inl e \<or>
         (\<exists>thumb. PIL_thumbnail env img (600, 400) = Inr thumb \<and> PhotoImage env thumb = Inl e)))"
  have eq: "load_image env p s =
     s\<lparr>current_image_path := Some p,
       dialogs := dialogs s @ [Showerror ''Error'' (''Failed to load image:'' @ nl @ str_exn e)]\<rparr>"
    using a by (rule load_image_failure)
  show ?thesis
    unfolding eq by simp
qed

text \<open>A caption of \<^verbatim>\<open>photo.jpg\<close> is on the screen and a broken file is chosen.\<close>

theorem load_image_failure_keeps_caption_witness:
  "PIL_open demo_platform ''broken.png'' = Inl (Exception ''cannot identify image file'') \<and>
   current_image_path captioned_app = Some ''photo.jpg'' \<and>
   current_image_path (load_image demo_platform ''broken.png'' captioned_app) = Some ''broken.png'' \<and>
   current_caption (load_image demo_platform ''broken.png'' captioned_app) = Some ''a red square'' \<and>
   read_btn (load_image demo_platform ''broken.png'' captioned_app) = NORMAL \<and>
   export_btn (load_image demo_platform ''broken.png'' captioned_app) = NORMAL"
proof -
  have o: "PIL_open demo_platform ''broken.png'' = Inl (Exception ''cannot identify image file'')"
    by (simp add: demo_platform_def)
  have c: "current_image_path captioned_app = Some ''photo.jpg''"
    "current_caption captioned_app = Some ''a red square''"
    "read_btn captioned_app = NORMAL" "export_btn captioned_app = NORMAL"
    by (simp_all add: captioned_app_def)
  show ?thesis
    using load_image_failure_keeps_caption
      [of demo_platform "''broken.png''" "Exception ''cannot identify image file''" captioned_app]
      o c
    by simp
qed

subsection \<open>C5: reading aloud without a caption\<close>

text \<open>
  C5. When the caption is absent, \<^verbatim>\<open>read_aloud\<close> shows the warning "No Caption" and
  does nothing else: no attribute and no widget changes, and no thread is started.
\<close>

theorem read_aloud_rejected:
  "current_caption s = None \<Longrightarrow>
   read_aloud s =
     s\<lparr>dialogs := dialogs s @ [Showwarning ''No Caption'' ''Please generate a caption first.'']\<rparr> \<and>
   threads (read_aloud s) = threads s \<and>
   current_image_path (read_aloud s) = current_image_path s \<and>
   current_caption (read_aloud s) = None \<and>
   status_label (read_aloud s) = status_label s"
  by (simp add: read_aloud_def app_defs)

text \<open>Right after start there is no caption.\<close>

theorem read_aloud_rejected_witness:
  "current_caption started_app = None \<and>
   read_aloud started_app =
     started_app\<lparr>dialogs := [Showwarning ''No Caption'' ''Please generate a caption first.'']\<rparr> \<and>
   threads (read_aloud started_app) = [Thread_load]"
proof -
  have c: "current_caption started_app = None" "dialogs started_app = []"
    "threads started_app = [Thread_load]"
    by (simp_all add: started_app_def init_def init_tts_def start_thread_def demo_engine_def)
  show ?thesis
    using read_aloud_rejected [of started_app] c by simp
qed

subsection \<open>C6: generating without an image or without the model\<close>

text \<open>
  C6. When the image path is absent or the captioner has not been loaded, the command
  \<^verbatim>\<open>generate_caption\<close> of the window shows a warning ("No Image" when there is no
  image, "Model Not Ready" otherwise) and does nothing else: no attribute and no widget
  changes, and no thread is started.
\<close>

theorem app_generate_caption_rejected:
  "current_image_path s = None \<or> captioner s = None \<Longrightarrow>
   app_generate_caption s =
     s\<lparr>dialogs := dialogs s @
         [if truthy (current_image_path s)
          then Showwarning ''Model Not Ready'' ''Please wait for the model to load.''
          else Showwarning ''No Image'' ''Please select an image first.'']\<rparr> \<and>
   threads (app_generate_caption s) = threads s \<and>
   generate_btn (app_generate_caption s) = generate_btn s \<and>
   progress (app_generate_caption s) = progress s \<and>
   status_label (app_generate_caption s) = status_label s"
  by (auto simp: app_generate_caption_def app_defs)

text \<open>Right after start there is no image; later there is an image and still no model.\<close>

theorem app_generate_caption_rejected_witness:
  "current_image_path started_app = None \<and>
   app_generate_caption started_app =
     started_app\<lparr>dialogs := [Showwarning ''No Image'' ''Please select an image first.'']\<rparr> \<and>
   current_image_path waiting_app = Some ''photo.jpg'' \<and> captioner waiting_app = None \<and>
   app_generate_caption waiting_app =
     waiting_app\<lparr>dialogs := [Showwarning ''Model Not Ready''
                                 ''Please wait for the model to load.'']\<rparr> \<and>
   threads (app_generate_caption waiting_app) = [Thread_load]"
proof -
  have c: "current_image_path started_app = None" "dialogs started_app = []"
    by (simp_all add: started_app_def init_def init_tts_def start_thread_def demo_engine_def)
  have w: "current_image_path waiting_app = Some ''photo.jpg''" "captioner waiting_app = None"
    "dialogs waiting_app = []" "threads waiting_app = [Thread_load]"
    by (simp_all add: waiting_app_def started_app_def init_def init_tts_def start_thread_def demo_engine_def)
  show ?thesis
    using app_generate_caption_rejected [of started_app]
      app_generate_caption_rejected [of waiting_app] c w
    by simp
qed

lemma read_aloud_caption:
  "current_caption (read_aloud s) = current_caption s \<and>
   read_btn (read_aloud s) = read_btn s \<and> export_btn (read_aloud s) = export_btn s \<and>
   tts_engine (read_aloud s) = tts_engine s \<and> caption_text (read_aloud s) = caption_text s"
  by (simp add: read_aloud_def app_defs)

lemma on_caption_generated_truthy:
  "truthy r \<Longrightarrow>
   on_caption_generated r s =
     read_aloud (s\<lparr>progress := False, generate_btn := NORMAL, current_caption := r,
                    caption_text := the r, read_btn := NORMAL, export_btn := NORMAL,
                    status_label := Status_caption_generated\<rparr>)"
  by (simp add: on_caption_generated_def Let_def)

lemma on_caption_generated_falsy:
  "\<not> truthy r \<Longrightarrow>
   on_caption_generated r s =
     on_caption_error ''Failed to generate caption'' (s\<lparr>progress := False, generate_btn := NORMAL\<rparr>)"
  by (simp add: on_caption_generated_def Let_def)

subsection \<open>C4: a new caption is read aloud\<close>

text \<open>
  C4, as the code has it. When \<^verbatim>\<open>_on_caption_generated\<close> receives a caption that is
  not empty, it stores the caption and enables reading aloud and exporting; then, if
  the speech engine is available, it starts a speech thread, which says the new caption,
  with no separate command; if the engine is not available, it starts no thread and shows
  the error "Text-to-speech engine is not available."
\<close>

theorem on_caption_generated_reads_aloud:
  "caption \<noteq> [] \<Longrightarrow>
   current_caption (on_caption_generated (Some caption) s) = Some caption \<and>
   read_btn (on_caption_generated (Some caption) s) = NORMAL \<and>
   export_btn (on_caption_generated (Some caption) s) = NORMAL \<and>
   (case tts_engine s of
      Some eng \<Rightarrow>
        threads (on_caption_generated (Some caption) s) = threads s @ [Thread_speak] \<and>
        fst (speak_worker (on_caption_generated (Some caption) s)) = Some (Some caption)
    | None \<Rightarrow>
        threads (on_caption_generated (Some caption) s) = threads s \<and>
        dialogs (on_caption_generated (Some caption) s) =
          dialogs s @ [Showerror ''TTS Error'' ''Text-to-speech engine is not available.''])"
  by (simp add: on_caption_generated_truthy read_aloud_def speak_worker_def app_defs
        split: option.splits)

lemma captioning_app_fields:
  "tts_engine captioning_app = Some demo_engine"
  "threads captioning_app = [Thread_load, Thread_generate]"
  "captioner captioning_app = Some demo_captioner"
  "current_image_path captioning_app = Some ''photo.jpg''"
  "current_caption captioning_app = None"
  by (simp_all add: captioning_app_def started_app_def init_def init_tts_def load_worker_def
        on_model_loaded_def select_image_def load_image_def app_generate_caption_def
        demo_platform_def app_defs)

lemma silent_captioning_app_fields:
  "tts_engine silent_captioning_app = None"
  "threads silent_captioning_app = [Thread_load, Thread_generate]"
  "captioner silent_captioning_app = Some demo_captioner"
  "current_image_path silent_captioning_app = Some ''photo.jpg''"
  "current_caption silent_captioning_app = None"
  by (simp_all add: silent_captioning_app_def silent_app_def init_def init_tts_def load_worker_def
        on_model_loaded_def select_image_def load_image_def app_generate_caption_def
        demo_platform_def app_defs)

lemma demo_photo_caption:
  "generate_caption demo_captioner ''photo.jpg'' 50 4 =
     ([Call_open ''photo.jpg'', Call_processor rgb_image, Call_generate [255, 0, 0] 50 4,
       Call_decode [1, 2, 3]], Inr (Some ''a red square''))"
  by (simp add: generate_caption_catches generate_caption_try_def demo_captioner_def run_defs
        rgb_image_def strip_def strip_by_def isspace_def)

text \<open>The caption of \<^verbatim>\<open>photo.jpg\<close> arrives in an application that has an engine.\<close>

theorem on_caption_generated_reads_aloud_witness:
  "generate_worker captioning_app = On_caption_generated (Some ''a red square'') \<and>
   threads (run_callback (generate_worker captioning_app) captioning_app) =
     [Thread_load, Thread_generate, Thread_speak] \<and>
   fst (speak_worker (run_callback (generate_worker captioning_app) captioning_app)) =
     Some (Some ''a red square'')"
proof -
  have w: "generate_worker captioning_app = On_caption_generated (Some ''a red square'')"
    by (simp add: generate_worker_def captioning_app_fields demo_photo_caption)
  show ?thesis
    using on_caption_generated_reads_aloud [of "''a red square''" captioning_app]
    by (simp add: w captioning_app_fields)
qed

text \<open>
  C4 as the specification words it fails where \<^verbatim>\<open>pyttsx3.init()\<close> had raised at start:
  the caption arrives, is stored, and no speech thread is started.
\<close>

theorem auto_speak_counterexample:
  "generate_worker silent_captioning_app = On_caption_generated (Some ''a red square'') \<and>
   current_caption (run_callback (generate_worker silent_captioning_app) silent_captioning_app) =
     Some ''a red square'' \<and>
   read_btn (run_callback (generate_worker silent_captioning_app) silent_captioning_app) = NORMAL \<and>
   threads (run_callback (generate_worker silent_captioning_app) silent_captioning_app) =
     [Thread_load, Thread_generate] \<and>
   Thread_speak \<notin>
     set (threads (run_callback (generate_worker silent_captioning_app) silent_captioning_app))"
proof -
  have w: "generate_worker silent_captioning_app = On_caption_generated (Some ''a red square'')"
    by (simp add: generate_worker_def silent_captioning_app_fields demo_photo_caption)
  show ?thesis
    by (simp add: w on_caption_generated_truthy read_aloud_def app_defs
          silent_captioning_app_fields)
qed


subsection \<open>C8: the exported file\<close>



subsection \<open>C3: a caption or a failure\<close>





section \<open>The event loop\<close>

lemma export_caption_keeps:
  "current_caption (export_caption env answer s) = current_caption s \<and>
   read_btn (export_caption env answer s) = read_btn s \<and>
   export_btn (export_caption env answer s) = export_btn s"
  by (auto simp: export_caption_def app_defs split: option.splits sum.splits)

lemma load_image_guarded:
  "caption_actions_guarded s \<Longrightarrow> caption_actions_guarded (load_image env p s)"
  using load_image_cases [of env p s]
  by (auto simp: caption_actions_guarded_def)

lemma run_callback_guarded:
  "caption_actions_guarded s \<Longrightarrow> caption_actions_guarded (run_callback cb s)"
proof (cases cb)
  case (On_caption_generated r)
  then show "caption_actions_guarded s \<Longrightarrow> caption_actions_guarded (run_callback cb s)"
    by (cases "truthy r")
       (simp_all add: caption_actions_guarded_def on_caption_generated_truthy
          on_caption_generated_falsy read_aloud_caption on_caption_error_def app_defs)
qed (simp_all add: caption_actions_guarded_def on_model_loaded_def on_model_error_def
       on_caption_error_def show_tts_error_def app_defs)

lemma step_guarded:
  "caption_actions_guarded s \<Longrightarrow> caption_actions_guarded (step env ev s)"
proof (cases ev)
  case (Select_image file_path)
  assume g: "caption_actions_guarded s"
  then have "caption_actions_guarded (filedialog Askopenfilename s)"
    by (simp add: caption_actions_guarded_def filedialog_def)
  then show ?thesis
    using Select_image load_image_guarded
    by (simp add: select_image_def Let_def)
next
  case (Drop data)
  assume "caption_actions_guarded s"
  then show ?thesis
    using Drop load_image_guarded by (simp add: on_drop_def Let_def)
next
  case Generate_caption
  assume "caption_actions_guarded s"
  then show ?thesis
    using Generate_caption
    by (simp add: caption_actions_guarded_def app_generate_caption_def app_defs)
next
  case Read_aloud
  assume "caption_actions_guarded s"
  then show ?thesis
    using Read_aloud by (simp add: caption_actions_guarded_def read_aloud_caption)
next
  case (Export_caption answer)
  assume "caption_actions_guarded s"
  then show ?thesis
    using Export_caption export_caption_keeps [of env answer s]
    by (simp add: caption_actions_guarded_def)
next
  case Toggle_high_contrast
  assume "caption_actions_guarded s"
  then show ?thesis
    using Toggle_high_contrast
    by (simp add: caption_actions_guarded_def toggle_high_contrast_def Let_def)
next
  case (Loaded loaded)
  assume g: "caption_actions_guarded s"
  then have "caption_actions_guarded (fst (load_worker loaded s))"
    by (simp add: caption_actions_guarded_def load_worker_def split: sum.splits)
  then show ?thesis
    using Loaded run_callback_guarded by simp
next
  case (Callback cb)
  assume "caption_actions_guarded s"
  then show ?thesis
    using Callback run_callback_guarded by simp
qed

text \<open>From the start on, whatever happens, the two actions are enabled only with a caption.\<close>

lemma run_events_guarded:
  "caption_actions_guarded s \<Longrightarrow> caption_actions_guarded (run_events env evs s)"
  by (induction evs arbitrary: s) (simp_all add: step_guarded)

lemma init_guarded: "caption_actions_guarded (init env tts)"
  by (simp add: caption_actions_guarded_def init_def init_tts_def start_thread_def)

lemma reachable_guarded: "caption_actions_guarded (run_events env evs (init env tts))"
  by (rule run_events_guarded [OF init_guarded])

end
